theory Spec2Isabelle
  imports Main
begin

section \<open>The signalling relay (the Socket.IO handlers of the server)\<close>

text \<open>
  The relay keeps two process-wide maps, \<^verbatim>\<open>rooms\<close> (meeting key to a JavaScript
  \<^verbatim>\<open>Set\<close> of socket ids) and \<^verbatim>\<open>participants\<close> (socket id to a participant
  object). A JavaScript \<^verbatim>\<open>Set\<close> iterates in insertion order, so it is a list
  without duplicates here: \<open>set_add\<close> appends an absent element, \<open>set_delete\<close>
  removes it.
\<close>

type_synonym sid = string
type_synonym key = string

record user_obj =
  user_id :: "string option"
  user_name :: "string option"
  user_email :: "string option"

text \<open>The default \<^verbatim>\<open>{ name: 'Anonymous' }\<close> of the join-room handler.\<close>

definition anonymous :: user_obj where
  "anonymous = \<lparr>user_id = None, user_name = Some ''Anonymous'', user_email = None\<rparr>"

text \<open>
  The \<^verbatim>\<open>userInfo\<close> object of a join-room payload. Every field may be absent
  (\<^verbatim>\<open>undefined\<close>), which is \<open>None\<close>. The handlers are modelled on payloads that
  carry a \<^verbatim>\<open>userInfo\<close> object and a string \<^verbatim>\<open>meetingKey\<close>, which is what
  \<^verbatim>\<open>SocketService.joinRoom\<close> sends.
\<close>

record user_info =
  info_userId :: "string option"
  info_user :: "user_obj option"
  info_audioEnabled :: "bool option"
  info_videoEnabled :: "bool option"

record participant =
  socketId :: sid
  userId :: string
  user :: user_obj
  audioEnabled :: bool
  videoEnabled :: bool
  meetingKey :: key
  isScreenSharing :: "bool option"

text \<open>
  JavaScript's \<^verbatim>\<open>a || b\<close> yields \<^verbatim>\<open>a\<close> when \<^verbatim>\<open>a\<close> is truthy and
  \<^verbatim>\<open>b\<close> otherwise. \<^verbatim>\<open>undefined\<close>, \<^verbatim>\<open>false\<close> and the empty string are
  falsy; every object is truthy.
\<close>

definition js_or_string :: "string option \<Rightarrow> string \<Rightarrow> string" where
  "js_or_string a b = (case a of None \<Rightarrow> b | Some x \<Rightarrow> (if x = [] then b else x))"

definition js_or_bool :: "bool option \<Rightarrow> bool \<Rightarrow> bool" where
  "js_or_bool a b = (case a of None \<Rightarrow> b | Some x \<Rightarrow> (if x then x else b))"

definition js_or_object :: "'a option \<Rightarrow> 'a \<Rightarrow> 'a" where
  "js_or_object a b = (case a of None \<Rightarrow> b | Some x \<Rightarrow> x)"

definition set_add :: "'a \<Rightarrow> 'a list \<Rightarrow> 'a list" where
  "set_add x xs = (if x \<in> set xs then xs else xs @ [x])"

definition set_delete :: "'a \<Rightarrow> 'a list \<Rightarrow> 'a list" where
  "set_delete x xs = removeAll x xs"

text \<open>
  A session description (\<^verbatim>\<open>RTCSessionDescriptionInit\<close>) is its \<^verbatim>\<open>type\<close> field;
  the SDP text the browser writes is not modelled. An ICE candidate is a string.
\<close>

datatype description = SdpOffer | SdpAnswer

type_synonym candidate = string

text \<open>The events the relay emits to clients, with their payloads.\<close>

datatype event =
    RoomUsers "participant list"
  | UserJoined participant
  | UserLeft sid
  | WebrtcOffer description sid "string option"
  | WebrtcAnswer description sid
  | WebrtcIceCandidate candidate sid
  | ChatMessage string user_obj string
  | UserStartedScreenShare string sid
  | UserStoppedScreenShare string sid
  | RecordingStarted user_obj
  | RecordingStopped user_obj

text \<open>A delivery is an event handed to one connection: (recipient, event).\<close>

type_synonym delivery = "sid \<times> event"

subsection \<open>The Socket.IO primitives\<close>

text \<open>
  The Socket.IO library is not part of the repository; its primitives are modelled by
  their documented behaviour. The adapter maps a room name to the connections in it.
  A connection is put into the room named by its own id when it connects
  (\<open>connection\<close>), \<^verbatim>\<open>socket.join(r)\<close> and \<^verbatim>\<open>socket.leave(r)\<close> add and remove
  it, and it has left every room when its \<^verbatim>\<open>disconnect\<close> handler runs
  (\<open>leave_all\<close>). \<^verbatim>\<open>socket.emit\<close> delivers to the socket itself,
  \<^verbatim>\<open>socket.to(r).emit\<close> to every connection in room \<open>r\<close> except the socket, and
  \<^verbatim>\<open>io.to(r).emit\<close> to every connection in room \<open>r\<close>.
\<close>

type_synonym adapter = "string \<Rightarrow> sid list"

definition socket_join :: "adapter \<Rightarrow> sid \<Rightarrow> string \<Rightarrow> adapter" where
  "socket_join ad s r = ad(r := set_add s (ad r))"

definition socket_leave :: "adapter \<Rightarrow> sid \<Rightarrow> string \<Rightarrow> adapter" where
  "socket_leave ad s r = ad(r := set_delete s (ad r))"

definition leave_all :: "adapter \<Rightarrow> sid \<Rightarrow> adapter" where
  "leave_all ad s = (\<lambda>r. set_delete s (ad r))"

definition socket_emit :: "sid \<Rightarrow> event \<Rightarrow> delivery list" where
  "socket_emit s ev = [(s, ev)]"

definition socket_to :: "adapter \<Rightarrow> sid \<Rightarrow> string \<Rightarrow> event \<Rightarrow> delivery list" where
  "socket_to ad s r ev = map (\<lambda>t. (t, ev)) (filter (\<lambda>t. t \<noteq> s) (ad r))"

definition io_to :: "adapter \<Rightarrow> string \<Rightarrow> event \<Rightarrow> delivery list" where
  "io_to ad r ev = map (\<lambda>t. (t, ev)) (ad r)"

subsection \<open>The relay state and its handlers\<close>

record relay =
  rooms :: "key \<rightharpoonup> sid list"
  participants :: "sid \<rightharpoonup> participant"
  adapter :: adapter

definition relay0 :: relay where
  "relay0 = \<lparr>rooms = Map.empty, participants = Map.empty, adapter = (\<lambda>r. [])\<rparr>"

definition connection :: "relay \<Rightarrow> sid \<Rightarrow> relay" where
  "connection st s = st\<lparr>adapter := socket_join (adapter st) s s\<rparr>"

text \<open>The participant object the join-room handler stores for the joining socket.\<close>

definition new_participant :: "sid \<Rightarrow> key \<Rightarrow> user_info \<Rightarrow> participant" where
  "new_participant s k info =
     \<lparr>socketId = s,
      userId = js_or_string (info_userId info) s,
      user = js_or_object (info_user info) anonymous,
      audioEnabled = js_or_bool (info_audioEnabled info) True,
      videoEnabled = js_or_bool (info_videoEnabled info) True,
      meetingKey = k,
      isScreenSharing = None\<rparr>"

text \<open>The members of a room of the registry; a missing room has none.\<close>

definition room_members :: "relay \<Rightarrow> key \<Rightarrow> sid list" where
  "room_members st k = (case rooms st k of None \<Rightarrow> [] | Some m \<Rightarrow> m)"

text \<open>
  \<^verbatim>\<open>socket.on('join-room', ...)\<close>: join the Socket.IO room, store the participant,
  create the room if missing, add the socket id, compute
  \<^verbatim>\<open>Array.from(rooms.get(meetingKey)).map(id => participants.get(id)).filter(Boolean)\<close>
  (\<open>List.map_filter\<close>), reply \<^verbatim>\<open>room-users\<close> to the socket and emit
  \<^verbatim>\<open>user-joined\<close> to the others of the room.
\<close>

definition join_room :: "relay \<Rightarrow> sid \<Rightarrow> key \<Rightarrow> user_info \<Rightarrow> relay \<times> delivery list" where
  "join_room st s k info =
     (let ad = socket_join (adapter st) s k;
          ps = (participants st)(s \<mapsto> new_participant s k info);
          members = set_add s (room_members st k);
          rs = (rooms st)(k \<mapsto> members);
          roomParticipants = List.map_filter ps members
      in (\<lparr>rooms = rs, participants = ps, adapter = ad\<rparr>,
          socket_emit s (RoomUsers roomParticipants)
          @ socket_to ad s k (UserJoined (new_participant s k info))))"

text \<open>
  The removal both \<^verbatim>\<open>leave-room\<close> and \<^verbatim>\<open>disconnect\<close> perform on the registry:
  delete the socket id from the room if the room exists, and delete the room when it
  became empty.
\<close>

definition remove_from_room :: "(key \<rightharpoonup> sid list) \<Rightarrow> key \<Rightarrow> sid \<Rightarrow> (key \<rightharpoonup> sid list)" where
  "remove_from_room rs k s =
     (case rs k of
        None \<Rightarrow> rs
      | Some m \<Rightarrow> (if set_delete s m = [] then rs(k := None) else rs(k \<mapsto> set_delete s m)))"

text \<open>
  \<^verbatim>\<open>socket.on('leave-room', ...)\<close>: leave the Socket.IO room, remove the id from the
  registry room, emit \<^verbatim>\<open>user-left\<close> to the room, delete the participant. Nothing
  is tested before the emit.
\<close>

definition leave_room :: "relay \<Rightarrow> sid \<Rightarrow> key \<Rightarrow> relay \<times> delivery list" where
  "leave_room st s k =
     (let ad = socket_leave (adapter st) s k
      in (\<lparr>rooms = remove_from_room (rooms st) k s,
           participants = (participants st)(s := None),
           adapter = ad\<rparr>,
          socket_to ad s k (UserLeft s)))"

text \<open>
  \<^verbatim>\<open>socket.on('disconnect', ...)\<close>: the socket has left all its Socket.IO rooms; if
  it has a participant object, its id is removed from the room of that object's
  \<^verbatim>\<open>meetingKey\<close> and \<^verbatim>\<open>user-left\<close> is emitted there; the participant is deleted.
\<close>

definition disconnect :: "relay \<Rightarrow> sid \<Rightarrow> relay \<times> delivery list" where
  "disconnect st s =
     (let ad = leave_all (adapter st) s
      in (case participants st s of
            None \<Rightarrow> (\<lparr>rooms = rooms st, participants = (participants st)(s := None), adapter = ad\<rparr>, [])
          | Some p \<Rightarrow>
              (\<lparr>rooms = remove_from_room (rooms st) (meetingKey p) s,
                participants = (participants st)(s := None),
                adapter = ad\<rparr>,
               socket_to ad s (meetingKey p) (UserLeft s))))"

text \<open>
  The three directed handlers emit with \<^verbatim>\<open>socket.to(to)\<close>, where \<^verbatim>\<open>to\<close> is the
  string of the payload; the registry is read only for the sender's \<^verbatim>\<open>userId\<close> in
  the offer (\<^verbatim>\<open>participants.get(socket.id)?.userId\<close>).
\<close>

definition webrtc_offer :: "relay \<Rightarrow> sid \<Rightarrow> key \<Rightarrow> description \<Rightarrow> string \<Rightarrow> relay \<times> delivery list" where
  "webrtc_offer st s k offer to =
     (st, socket_to (adapter st) s to (WebrtcOffer offer s (map_option userId (participants st s))))"

definition webrtc_answer :: "relay \<Rightarrow> sid \<Rightarrow> key \<Rightarrow> description \<Rightarrow> string \<Rightarrow> relay \<times> delivery list" where
  "webrtc_answer st s k answer to = (st, socket_to (adapter st) s to (WebrtcAnswer answer s))"

definition webrtc_ice_candidate :: "relay \<Rightarrow> sid \<Rightarrow> key \<Rightarrow> candidate \<Rightarrow> string \<Rightarrow> relay \<times> delivery list" where
  "webrtc_ice_candidate st s k candidate to =
     (st, socket_to (adapter st) s to (WebrtcIceCandidate candidate s))"

text \<open>
  The chat handler; the timestamp \<^verbatim>\<open>new Date().toISOString()\<close> is the parameter
  \<open>now\<close>.
\<close>

definition chat_message :: "relay \<Rightarrow> sid \<Rightarrow> key \<Rightarrow> string \<Rightarrow> string \<Rightarrow> relay \<times> delivery list" where
  "chat_message st s k message now =
     (case participants st s of
        None \<Rightarrow> (st, [])
      | Some p \<Rightarrow> (st, io_to (adapter st) k (ChatMessage message (user p) now)))"

definition start_screen_share :: "relay \<Rightarrow> sid \<Rightarrow> key \<Rightarrow> relay \<times> delivery list" where
  "start_screen_share st s k =
     (case participants st s of
        None \<Rightarrow> (st, [])
      | Some p \<Rightarrow>
          (st\<lparr>participants := (participants st)(s \<mapsto> p\<lparr>isScreenSharing := Some True\<rparr>)\<rparr>,
           socket_to (adapter st) s k (UserStartedScreenShare (userId p) s)))"

definition stop_screen_share :: "relay \<Rightarrow> sid \<Rightarrow> key \<Rightarrow> relay \<times> delivery list" where
  "stop_screen_share st s k =
     (case participants st s of
        None \<Rightarrow> (st, [])
      | Some p \<Rightarrow>
          (st\<lparr>participants := (participants st)(s \<mapsto> p\<lparr>isScreenSharing := Some False\<rparr>)\<rparr>,
           socket_to (adapter st) s k (UserStoppedScreenShare (userId p) s)))"

definition start_recording :: "relay \<Rightarrow> sid \<Rightarrow> key \<Rightarrow> relay \<times> delivery list" where
  "start_recording st s k =
     (case participants st s of
        None \<Rightarrow> (st, [])
      | Some p \<Rightarrow> (st, io_to (adapter st) k (RecordingStarted (user p))))"

definition stop_recording :: "relay \<Rightarrow> sid \<Rightarrow> key \<Rightarrow> relay \<times> delivery list" where
  "stop_recording st s k =
     (case participants st s of
        None \<Rightarrow> (st, [])
      | Some p \<Rightarrow> (st, io_to (adapter st) k (RecordingStopped (user p))))"

text \<open>The payloads of the \<^verbatim>\<open>room-users\<close> events among deliveries, for one recipient.\<close>

fun room_users_of :: "event \<Rightarrow> participant list option" where
  "room_users_of (RoomUsers ps) = Some ps"
| "room_users_of _ = None"

definition room_users_to :: "sid \<Rightarrow> delivery list \<Rightarrow> participant list list" where
  "room_users_to s out =
     List.map_filter (\<lambda>d. if fst d = s then room_users_of (snd d) else None) out"

section \<open>The meeting-room client (the MeetingRoom component and the SocketService)\<close>

text \<open>
  The repository holds two versions of the \<^verbatim>\<open>MeetingRoom\<close> component. Where they
  differ, the first one in the source is modelled with suffix \<open>_v1\<close> and the second
  one with suffix \<open>_v2\<close>. Logging, toasts and the DOM video elements are left out.
  A handler runs to completion: the browser promises it awaits are taken to resolve
  without another handler running in between, and the browser calls are taken to
  succeed, except where a definition says otherwise. A handler reads the component's
  state variables at their current values.
\<close>

datatype track_kind = Audio | Video

record track =
  kind :: track_kind
  label :: string

text \<open>A \<^verbatim>\<open>MediaStream\<close> is the list of its tracks.\<close>

type_synonym stream = "track list"

text \<open>
  An \<^verbatim>\<open>RTCPeerConnection\<close>. \<open>pc_serial\<close> tells the objects apart (each
  \<^verbatim>\<open>new RTCPeerConnection\<close> is a fresh object); \<open>senders\<close> is the track of each
  sender that \<^verbatim>\<open>getSenders()\<close> lists; \<open>iceCandidates\<close> are the candidates given
  to \<^verbatim>\<open>addIceCandidate\<close>, in the order of the calls.
\<close>

record peer_conn =
  pc_serial :: nat
  senders :: "track option list"
  localDescription :: "description option"
  remoteDescription :: "description option"
  iceCandidates :: "candidate list"
  connectionState :: string
  pc_closed :: bool

text \<open>The messages a client sends to the relay (the methods of \<^verbatim>\<open>SocketService\<close>).\<close>

datatype client_msg =
    JoinRoom key user_info
  | LeaveRoom key
  | SendOffer key description sid
  | SendAnswer key description sid
  | SendIceCandidate key candidate sid
  | StartScreenShare key
  | StopScreenShare key

text \<open>The callbacks given to \<^verbatim>\<open>setTimeout\<close>.\<close>

datatype timer_task =
    CreatePeer sid bool
  | RetryIceCandidate candidate sid

text \<open>
  The state of one client: the component's state and refs, the socket of the
  \<^verbatim>\<open>SocketService\<close> singleton (\<open>socket_open\<close>: it is not null), the pending
  timers with the time they are due, the clock, and the screen track whose
  \<^verbatim>\<open>onended\<close> callback is set. A JavaScript \<^verbatim>\<open>Map\<close> iterates in insertion order,
  so it is an association list: \<open>map_set\<close> overwrites in place or appends.
\<close>

record client =
  me :: "string option"
  roomKey :: "key option"
  localStream :: "stream option"
  peerConnections :: "(sid \<times> peer_conn) list"
  participantsView :: "(sid \<times> participant) list"
  screenSharing :: bool
  onended :: "track option"
  socket_open :: bool
  timers :: "(nat \<times> timer_task) list"
  clock :: nat
  next_serial :: nat
  stopped :: "track list"

fun map_set :: "'k \<Rightarrow> 'v \<Rightarrow> ('k \<times> 'v) list \<Rightarrow> ('k \<times> 'v) list" where
  "map_set k v [] = [(k, v)]"
| "map_set k v (e # m) = (if fst e = k then (k, v) # m else e # map_set k v m)"

definition map_get :: "('k \<times> 'v) list \<Rightarrow> 'k \<Rightarrow> 'v option" where
  "map_get m k = map_of m k"


text \<open>\<^verbatim>\<open>this.socket?.emit(...)\<close>: nothing is sent when the socket is null.\<close>

definition emit :: "client \<Rightarrow> client_msg \<Rightarrow> client_msg list" where
  "emit c m = (if socket_open c then [m] else [])"

text \<open>\<^verbatim>\<open>meetingKey!\<close> in a message: the key, the empty string standing for a missing one.\<close>

definition the_key :: "client \<Rightarrow> key" where
  "the_key c = (case roomKey c of None \<Rightarrow> [] | Some k \<Rightarrow> k)"


text \<open>
  \<^verbatim>\<open>new RTCPeerConnection(rtcConfiguration)\<close> followed by \<^verbatim>\<open>addTrack\<close> for every
  track of the local stream, if there is one.
\<close>

definition new_peer_conn :: "client \<Rightarrow> peer_conn" where
  "new_peer_conn c =
     \<lparr>pc_serial = next_serial c,
      senders = (case localStream c of None \<Rightarrow> [] | Some ts \<Rightarrow> map Some ts),
      localDescription = None,
      remoteDescription = None,
      iceCandidates = [],
      connectionState = ''new'',
      pc_closed = False\<rparr>"

text \<open>
  The part of \<^verbatim>\<open>createPeerConnection\<close> both versions share: create the connection,
  store it under the remote socket id, and, as initiator, create the offer, commit it
  as local description and send it.
\<close>

definition create_and_store :: "client \<Rightarrow> sid \<Rightarrow> bool \<Rightarrow> client \<times> client_msg list" where
  "create_and_store c s isInitiator =
     (let pc = new_peer_conn c;
          c1 = c\<lparr>peerConnections := map_set s pc (peerConnections c),
                 next_serial := Suc (next_serial c)\<rparr>
      in if isInitiator
         then (c1\<lparr>peerConnections :=
                    map_set s (pc\<lparr>localDescription := Some SdpOffer\<rparr>) (peerConnections c1)\<rparr>,
               emit c1 (SendOffer (the_key c1) SdpOffer s))
         else (c1, []))"

text \<open>
  First version: \<^verbatim>\<open>if (peerConnectionsRef.current.has(socketId)) return ...get(socketId)\<close>
  before anything else.
\<close>

definition createPeerConnection_v1 :: "client \<Rightarrow> sid \<Rightarrow> bool \<Rightarrow> client \<times> client_msg list" where
  "createPeerConnection_v1 c s isInitiator =
     (case map_get (peerConnections c) s of
        Some pc \<Rightarrow> (c, [])
      | None \<Rightarrow> create_and_store c s isInitiator)"

text \<open>Second version: no test; the new connection is stored over an existing one.\<close>

definition createPeerConnection_v2 :: "client \<Rightarrow> sid \<Rightarrow> bool \<Rightarrow> client \<times> client_msg list" where
  "createPeerConnection_v2 c s isInitiator = create_and_store c s isInitiator"

text \<open>
  The \<^verbatim>\<open>room-users\<close> listener. Both versions skip the participants whose
  \<^verbatim>\<open>userId\<close> is the local user's id and build a fresh participants map. The first
  version schedules \<^verbatim>\<open>createPeerConnection(socketId, true)\<close> 500 ms later, the second
  calls it at once.
\<close>

definition is_other :: "client \<Rightarrow> participant \<Rightarrow> bool" where
  "is_other c p = (Some (userId p) \<noteq> me c)"



fun room_users_loop_v2 :: "client \<Rightarrow> (sid \<times> participant) list \<Rightarrow> participant list
    \<Rightarrow> client \<times> (sid \<times> participant) list \<times> client_msg list" where
  "room_users_loop_v2 c pm [] = (c, pm, [])"
| "room_users_loop_v2 c pm (p # ps) =
     (if is_other c p
      then (let (c1, out1) = createPeerConnection_v2 c (socketId p) True;
                (c2, pm2, out2) = room_users_loop_v2 c1 (map_set (socketId p) p pm) ps
            in (c2, pm2, out1 @ out2))
      else room_users_loop_v2 c pm ps)"

definition on_room_users_v2 :: "client \<Rightarrow> participant list \<Rightarrow> client \<times> client_msg list" where
  "on_room_users_v2 c users =
     (let (c1, pm, out) = room_users_loop_v2 c [] users
      in (c1\<lparr>participantsView := pm\<rparr>, out))"


definition on_user_joined_v2 :: "client \<Rightarrow> participant \<Rightarrow> client \<times> client_msg list" where
  "on_user_joined_v2 c p =
     (if is_other c p
      then createPeerConnection_v2
             (c\<lparr>participantsView := map_set (socketId p) p (participantsView c)\<rparr>)
             (socketId p) True
      else (c, []))"


text \<open>
  \<^verbatim>\<open>handleOffer\<close>: take the connection of the sender or create one as responder,
  commit the offer as remote description, create the answer, commit it as local
  description and send it back.
\<close>

definition answer_offer :: "client \<Rightarrow> description \<Rightarrow> sid \<Rightarrow> client \<times> client_msg list" where
  "answer_offer c offer from =
     (case map_get (peerConnections c) from of
        None \<Rightarrow> (c, [])
      | Some pc \<Rightarrow>
          (c\<lparr>peerConnections :=
               map_set from (pc\<lparr>remoteDescription := Some offer, localDescription := Some SdpAnswer\<rparr>)
                 (peerConnections c)\<rparr>,
           emit c (SendAnswer (the_key c) SdpAnswer from)))"


definition handleOffer_v2 :: "client \<Rightarrow> description \<Rightarrow> sid \<Rightarrow> client \<times> client_msg list" where
  "handleOffer_v2 c offer from =
     (case map_get (peerConnections c) from of
        Some pc \<Rightarrow> answer_offer c offer from
      | None \<Rightarrow>
          (let (c1, out1) = createPeerConnection_v2 c from False;
               (c2, out2) = answer_offer c1 offer from
           in (c2, out1 @ out2)))"

definition handleAnswer :: "client \<Rightarrow> description \<Rightarrow> sid \<Rightarrow> client \<times> client_msg list" where
  "handleAnswer c answer from =
     (case map_get (peerConnections c) from of
        None \<Rightarrow> (c, [])
      | Some pc \<Rightarrow>
          (c\<lparr>peerConnections :=
               map_set from (pc\<lparr>remoteDescription := Some answer\<rparr>) (peerConnections c)\<rparr>, []))"













subsection \<open>Screen sharing\<close>


text \<open>
  \<^verbatim>\<open>pc.getSenders().find(s => s.track && s.track.kind === 'video')\<close> and, if a sender
  was found, \<^verbatim>\<open>sender.replaceTrack(videoTrack)\<close>: the track of the first sender that
  carries a video track is replaced (by null when \<^verbatim>\<open>videoTrack\<close> is undefined).
\<close>

definition carries_video :: "track option \<Rightarrow> bool" where
  "carries_video s = (case s of None \<Rightarrow> False | Some t \<Rightarrow> kind t = Video)"

fun replace_video :: "track option \<Rightarrow> track option list \<Rightarrow> track option list" where
  "replace_video vt [] = []"
| "replace_video vt (s # ss) =
     (if carries_video s then vt # ss else s # replace_video vt ss)"





subsection \<open>Leaving\<close>









section \<open>A concrete session\<close>

text \<open>
  Two users join the room \<open>abc-def-ghi\<close> one after the other, on the connections
  \<open>s1\<close> and \<open>s2\<close>.
\<close>

definition alice_info :: user_info where
  "alice_info = \<lparr>info_userId = Some ''u1'', info_user = None,
     info_audioEnabled = Some False, info_videoEnabled = Some False\<rparr>"

definition bob_info :: user_info where
  "bob_info = \<lparr>info_userId = Some ''u2'', info_user = None,
     info_audioEnabled = Some True, info_videoEnabled = None\<rparr>"

definition relay_one :: relay where
  "relay_one = fst (join_room (connection relay0 ''s1'') ''s1'' ''abc-def-ghi'' alice_info)"

definition relay_two :: relay where
  "relay_two = fst (join_room (connection relay_one ''s2'') ''s2'' ''abc-def-ghi'' bob_info)"

text \<open>A client that has its camera and microphone and an open socket, and nothing else yet.\<close>

definition camera :: stream where
  "camera = [\<lparr>kind = Audio, label = ''mic''\<rparr>, \<lparr>kind = Video, label = ''cam''\<rparr>]"

definition client0 :: "string \<Rightarrow> client" where
  "client0 uid =
     \<lparr>me = Some uid, roomKey = Some ''abc-def-ghi'', localStream = Some camera,
      peerConnections = [], participantsView = [], screenSharing = False, onended = None,
      socket_open = True, timers = [], clock = 0, next_serial = 0, stopped = []\<rparr>"






section \<open>Properties of the relay\<close>

lemma js_or_bool_True: "js_or_bool a True = True"
  by (simp add: js_or_bool_def split: option.split)

lemma relay_one_eq:
  "relay_one = \<lparr>rooms = [''abc-def-ghi'' \<mapsto> [''s1'']],
     participants = [''s1'' \<mapsto> new_participant ''s1'' ''abc-def-ghi'' alice_info],
     adapter = ((\<lambda>r. [])(''s1'' := [''s1'']))(''abc-def-ghi'' := [''s1''])\<rparr>"
  by (simp add: relay_one_def relay0_def connection_def join_room_def Let_def socket_join_def
      set_add_def room_members_def)

lemma relay_two_eq:
  "relay_two = \<lparr>rooms = [''abc-def-ghi'' \<mapsto> [''s1'', ''s2'']],
     participants = [''s1'' \<mapsto> new_participant ''s1'' ''abc-def-ghi'' alice_info,
                     ''s2'' \<mapsto> new_participant ''s2'' ''abc-def-ghi'' bob_info],
     adapter = (((\<lambda>r. [])(''s1'' := [''s1'']))(''abc-def-ghi'' := [''s1'', ''s2'']))
                 (''s2'' := [''s2''])\<rparr>"
  apply (simp add: relay_two_def relay_one_eq relay0_def connection_def join_room_def Let_def
      socket_join_def set_add_def room_members_def)
  apply (rule ext)
  apply simp
  done

lemma set_map_filter: "set (List.map_filter f xs) = {y. \<exists>x \<in> set xs. f x = Some y}"
  by (induction xs) (auto simp: List.map_filter_simps split: option.splits)

lemma room_users_to_others:
  "room_users_to s (map (\<lambda>t. (t, ev)) (filter (\<lambda>t. t \<noteq> s) xs)) = []"
  by (induction xs) (simp_all add: room_users_to_def List.map_filter_simps)

lemma room_users_to_Cons:
  "room_users_to s ((t, ev) # out) =
     (if t = s then (case room_users_of ev of None \<Rightarrow> room_users_to s out
                     | Some ps \<Rightarrow> ps # room_users_to s out)
      else room_users_to s out)"
  by (simp add: room_users_to_def List.map_filter_simps split: option.split)

lemma set_set_add: "set (set_add x xs) = insert x (set xs)"
  by (auto simp: set_add_def)

lemma filter_set_add_other:
  "filter (\<lambda>t. t \<noteq> s) (set_add s xs) = filter (\<lambda>t. t \<noteq> s) xs"
  by (simp add: set_add_def)

lemma filter_set_delete_other:
  "filter (\<lambda>t. t \<noteq> s) (set_delete s xs) = filter (\<lambda>t. t \<noteq> s) xs"
  by (induction xs) (simp_all add: set_delete_def)

subsection \<open>Joining\<close>

text \<open>
  Claim C10. The participant stored by a join-room request, which is also the one
  announced to the room in \<^verbatim>\<open>user-joined\<close>, has \<open>audioEnabled\<close> and
  \<open>videoEnabled\<close> true whatever flags \<^verbatim>\<open>userInfo\<close> carries: the defaults are
  applied with \<^verbatim>\<open>|| true\<close>.
\<close>

theorem join_room_flags_always_true:
  "participants (fst (join_room st s k info)) s = Some (new_participant s k info)
   \<and> audioEnabled (new_participant s k info) = True
   \<and> videoEnabled (new_participant s k info) = True
   \<and> snd (join_room st s k info) =
       (s, RoomUsers (List.map_filter (participants (fst (join_room st s k info)))
                        (set_add s (room_members st k))))
       # map (\<lambda>t. (t, UserJoined (new_participant s k info)))
           (filter (\<lambda>t. t \<noteq> s) (adapter (fst (join_room st s k info)) k))"
  by (simp add: join_room_def Let_def new_participant_def js_or_bool_True
      socket_emit_def socket_to_def)

theorem join_room_flags_always_true_witness:
  "info_audioEnabled alice_info = Some False
   \<and> info_videoEnabled alice_info = Some False
   \<and> map_option audioEnabled
         (participants (fst (join_room (connection relay0 ''s1'') ''s1'' ''abc-def-ghi'' alice_info))
            ''s1'') = Some True
   \<and> map_option videoEnabled
         (participants (fst (join_room (connection relay0 ''s1'') ''s1'' ''abc-def-ghi'' alice_info))
            ''s1'') = Some True"
  using join_room_flags_always_true [of "connection relay0 ''s1''" "''s1''" "''abc-def-ghi''" alice_info]
  by (simp add: alice_info_def)

text \<open>
  Claim C1, as stated, at a concrete input: the first connection joins a room that has
  no member, and the \<^verbatim>\<open>room-users\<close> reply it receives lists the joiner itself.
\<close>

theorem join_room_reply_lists_joiner:
  "room_members (connection relay0 ''s1'') ''abc-def-ghi'' = []
   \<and> map (map socketId) (room_users_to ''s1''
        (snd (join_room (connection relay0 ''s1'') ''s1'' ''abc-def-ghi'' alice_info))) = [[''s1'']]"
  by (simp add: relay0_def connection_def join_room_def Let_def socket_join_def socket_to_def
      socket_emit_def set_add_def room_members_def new_participant_def room_users_to_def
      List.map_filter_simps)

text \<open>
  Claim C1, amended. The joiner receives exactly one \<^verbatim>\<open>room-users\<close> reply. It lists
  the participant objects of the connections that were in the room's set before this
  join and still have a participant object in the registry, and the joiner's own new
  participant object (the handler adds the joiner before it reads the room).
\<close>

theorem join_room_room_users:
  "\<exists>ps. room_users_to s (snd (join_room st s k info)) = [ps]
     \<and> set ps = {p. \<exists>t \<in> set (room_members st k). t \<noteq> s \<and> participants st t = Some p}
                \<union> {new_participant s k info}"
proof -
  let ?ps = "List.map_filter ((participants st)(s \<mapsto> new_participant s k info))
               (set_add s (room_members st k))"
  have "room_users_to s (snd (join_room st s k info)) = [?ps]"
    by (simp add: join_room_def Let_def socket_emit_def socket_to_def room_users_to_Cons
        room_users_to_others)
  moreover have "set ?ps =
      {p. \<exists>t \<in> set (room_members st k). t \<noteq> s \<and> participants st t = Some p}
      \<union> {new_participant s k info}"
    by (auto simp: set_map_filter set_set_add split: if_splits)
  ultimately show ?thesis by blast
qed

theorem join_room_room_users_witness:
  "\<exists>ps. room_users_to ''s2''
           (snd (join_room (connection relay_one ''s2'') ''s2'' ''abc-def-ghi'' bob_info)) = [ps]
     \<and> set ps = {new_participant ''s1'' ''abc-def-ghi'' alice_info,
                  new_participant ''s2'' ''abc-def-ghi'' bob_info}"
proof -
  have "{p. \<exists>t \<in> set (room_members (connection relay_one ''s2'') ''abc-def-ghi'').
            t \<noteq> ''s2'' \<and> participants (connection relay_one ''s2'') t = Some p}
        = {new_participant ''s1'' ''abc-def-ghi'' alice_info}"
    by (auto simp: relay_one_eq connection_def room_members_def)
  with join_room_room_users [of "''s2''" "connection relay_one ''s2''" "''abc-def-ghi''" bob_info]
  show ?thesis by (simp add: insert_commute)
qed

subsection \<open>Leaving\<close>

lemma disconnect_unregistered_silent:
  "participants st s = None \<Longrightarrow> snd (disconnect st s) = []"
  by (simp add: disconnect_def Let_def)

lemma leave_room_unregisters: "participants (fst (leave_room st s k)) s = None"
  by (simp add: leave_room_def Let_def)

text \<open>
  The path a client takes when it leaves, \<^verbatim>\<open>leave-room\<close> and then the close of the
  connection, emits \<^verbatim>\<open>user-left\<close> once: the \<^verbatim>\<open>disconnect\<close> handler tests the
  participant object, which \<^verbatim>\<open>leave-room\<close> deleted.
\<close>

lemma disconnect_after_leave_room_silent:
  "snd (disconnect (fst (leave_room st s k)) s) = []"
  by (rule disconnect_unregistered_silent) (rule leave_room_unregisters)

text \<open>
  Claim C2 at a concrete input. \<open>s1\<close> and \<open>s2\<close> are in the room and \<open>s1\<close>
  sends \<^verbatim>\<open>leave-room\<close> twice. The \<^verbatim>\<open>leave-room\<close> handler emits without testing
  anything, so the second message makes \<open>s2\<close> observe a second \<^verbatim>\<open>user-left\<close>
  for \<open>s1\<close>.
\<close>

theorem leave_room_twice_emits_twice:
  "snd (leave_room relay_two ''s1'' ''abc-def-ghi'') = [(''s2'', UserLeft ''s1'')]
   \<and> snd (leave_room (fst (leave_room relay_two ''s1'' ''abc-def-ghi'')) ''s1'' ''abc-def-ghi'')
       = [(''s2'', UserLeft ''s1'')]"
  by (simp add: relay_two_eq leave_room_def Let_def socket_leave_def socket_to_def set_delete_def)

subsection \<open>Directed signals\<close>

lemma directed_routing:
  "webrtc_offer st s k d to =
     (st, map (\<lambda>t. (t, WebrtcOffer d s (map_option userId (participants st s))))
            (filter (\<lambda>t. t \<noteq> s) (adapter st to)))"
  "webrtc_answer st s k d to =
     (st, map (\<lambda>t. (t, WebrtcAnswer d s)) (filter (\<lambda>t. t \<noteq> s) (adapter st to)))"
  "webrtc_ice_candidate st s k cand to =
     (st, map (\<lambda>t. (t, WebrtcIceCandidate cand s)) (filter (\<lambda>t. t \<noteq> s) (adapter st to)))"
  by (simp_all add: webrtc_offer_def webrtc_answer_def webrtc_ice_candidate_def socket_to_def)

text \<open>
  Claim C3, as stated, at a concrete input: \<open>s1\<close> sends an offer whose target is the
  meeting key, which is no connection and has no participant object. The relay hands
  the offer to \<open>s2\<close>, the other member of the room of that name.
\<close>

theorem directed_offer_to_room_name:
  "participants relay_two ''abc-def-ghi'' = None
   \<and> ''abc-def-ghi'' \<notin> set (adapter relay_two ''abc-def-ghi'')
   \<and> snd (webrtc_offer relay_two ''s1'' ''abc-def-ghi'' SdpOffer ''abc-def-ghi'')
       = [(''s2'', WebrtcOffer SdpOffer ''s1'' (Some ''u1''))]"
  by (simp add: relay_two_eq webrtc_offer_def socket_to_def new_participant_def alice_info_def
      js_or_string_def)

text \<open>
  Claim C3, amended. A directed signal (offer, answer, candidate) goes to the
  connections of the Socket.IO room named by its target, the sender excepted, and the
  relay's state stays as it was: nothing is counted. Nothing ever goes back to the
  sender. When no connection is in a room of that name (the target is neither the id
  of a connection nor a meeting key in use), nothing is delivered to anyone.
\<close>

theorem directed_signal_routing:
  "fst (webrtc_offer st s k d to) = st
   \<and> fst (webrtc_answer st s k d to) = st
   \<and> fst (webrtc_ice_candidate st s k cand to) = st
   \<and> map fst (snd (webrtc_offer st s k d to)) = filter (\<lambda>t. t \<noteq> s) (adapter st to)
   \<and> map fst (snd (webrtc_answer st s k d to)) = filter (\<lambda>t. t \<noteq> s) (adapter st to)
   \<and> map fst (snd (webrtc_ice_candidate st s k cand to)) = filter (\<lambda>t. t \<noteq> s) (adapter st to)
   \<and> s \<notin> set (map fst (snd (webrtc_offer st s k d to)))
   \<and> s \<notin> set (map fst (snd (webrtc_answer st s k d to)))
   \<and> s \<notin> set (map fst (snd (webrtc_ice_candidate st s k cand to)))
   \<and> (adapter st to = [] \<longrightarrow>
        snd (webrtc_offer st s k d to) = []
        \<and> snd (webrtc_answer st s k d to) = []
        \<and> snd (webrtc_ice_candidate st s k cand to) = [])"
  by (simp add: directed_routing comp_def)

theorem directed_signal_routing_witness:
  "adapter relay_two ''s9'' = []
   \<and> webrtc_offer relay_two ''s1'' ''abc-def-ghi'' SdpOffer ''s9'' = (relay_two, [])
   \<and> webrtc_answer relay_two ''s1'' ''abc-def-ghi'' SdpAnswer ''s9'' = (relay_two, [])
   \<and> webrtc_ice_candidate relay_two ''s1'' ''abc-def-ghi'' ''cand'' ''s9'' = (relay_two, [])"
proof -
  have h: "adapter relay_two ''s9'' = []"
    by (simp add: relay_two_eq)
  from h directed_signal_routing [of relay_two "''s1''" "''abc-def-ghi''" SdpOffer "''s9''" "''cand''"]
       directed_signal_routing [of relay_two "''s1''" "''abc-def-ghi''" SdpAnswer "''s9''" "''cand''"]
  show ?thesis by (simp add: prod_eq_iff)
qed

subsection \<open>Broadcasts\<close>

text \<open>
  Claim C4, as stated, at a concrete input: \<open>s1\<close> sends a chat message to its room
  and is itself among the connections the relay delivers it to.
\<close>

theorem chat_message_echoed_to_sender:
  "map fst (snd (chat_message relay_two ''s1'' ''abc-def-ghi'' ''hi'' ''t0'')) = [''s1'', ''s2'']"
  by (simp add: relay_two_eq chat_message_def io_to_def)

text \<open>
  Claim C4, amended. For a sender that has a participant object, a chat message and a
  recording start or stop go to every connection in the Socket.IO room named by the
  message's meeting key, the sender included when it is there; a screen-share start or
  stop goes to every connection in that room other than the sender. The
  \<^verbatim>\<open>user-left\<close> of a leave-room message and the \<^verbatim>\<open>user-joined\<close> of a join-room
  message go to every connection in that room other than the sender.
\<close>

theorem broadcast_recipients:
  "(participants st s = Some p \<longrightarrow>
      snd (chat_message st s k m now) = map (\<lambda>t. (t, ChatMessage m (user p) now)) (adapter st k)
    \<and> snd (start_recording st s k) = map (\<lambda>t. (t, RecordingStarted (user p))) (adapter st k)
    \<and> snd (stop_recording st s k) = map (\<lambda>t. (t, RecordingStopped (user p))) (adapter st k)
    \<and> snd (start_screen_share st s k) =
        map (\<lambda>t. (t, UserStartedScreenShare (userId p) s)) (filter (\<lambda>t. t \<noteq> s) (adapter st k))
    \<and> snd (stop_screen_share st s k) =
        map (\<lambda>t. (t, UserStoppedScreenShare (userId p) s)) (filter (\<lambda>t. t \<noteq> s) (adapter st k)))
   \<and> snd (leave_room st s k) = map (\<lambda>t. (t, UserLeft s)) (filter (\<lambda>t. t \<noteq> s) (adapter st k))
   \<and> tl (snd (join_room st s k info)) =
       map (\<lambda>t. (t, UserJoined (new_participant s k info))) (filter (\<lambda>t. t \<noteq> s) (adapter st k))"
  by (simp add: chat_message_def start_recording_def stop_recording_def start_screen_share_def
      stop_screen_share_def leave_room_def join_room_def Let_def io_to_def socket_to_def
      socket_emit_def socket_join_def socket_leave_def filter_set_add_other
      filter_set_delete_other)

theorem broadcast_recipients_witness:
  "participants relay_two ''s1'' = Some (new_participant ''s1'' ''abc-def-ghi'' alice_info)
   \<and> map fst (snd (chat_message relay_two ''s1'' ''abc-def-ghi'' ''hi'' ''t0'')) = [''s1'', ''s2'']
   \<and> map fst (snd (start_recording relay_two ''s1'' ''abc-def-ghi'')) = [''s1'', ''s2'']
   \<and> map fst (snd (start_screen_share relay_two ''s1'' ''abc-def-ghi'')) = [''s2'']
   \<and> map fst (snd (leave_room relay_two ''s1'' ''abc-def-ghi'')) = [''s2'']"
proof -
  have h: "participants relay_two ''s1'' = Some (new_participant ''s1'' ''abc-def-ghi'' alice_info)"
    by (simp add: relay_two_eq)
  have a: "adapter relay_two ''abc-def-ghi'' = [''s1'', ''s2'']"
    by (simp add: relay_two_eq)
  from h a broadcast_recipients [of relay_two "''s1''"
      "new_participant ''s1'' ''abc-def-ghi'' alice_info" "''abc-def-ghi''" "''hi''" "''t0''" alice_info]
  show ?thesis by simp
qed

section \<open>Properties of the client\<close>

subsection \<open>Negotiation roles\<close>

lemma map_get_map_set: "map_get (map_set k v m) k = Some v"
  by (induction m) (simp_all add: map_get_def)

lemma join_two_deliveries:
  "snd (join_room (connection relay_one ''s2'') ''s2'' ''abc-def-ghi'' bob_info) =
     [(''s2'', RoomUsers [new_participant ''s1'' ''abc-def-ghi'' alice_info,
                          new_participant ''s2'' ''abc-def-ghi'' bob_info]),
      (''s1'', UserJoined (new_participant ''s2'' ''abc-def-ghi'' bob_info))]"
  by (simp add: relay_one_eq connection_def join_room_def Let_def socket_join_def socket_to_def
      socket_emit_def set_add_def room_members_def List.map_filter_simps)

lemma userId_alice: "userId (new_participant ''s1'' ''abc-def-ghi'' alice_info) = ''u1''"
  by (simp add: new_participant_def alice_info_def js_or_string_def)

lemma userId_bob: "userId (new_participant ''s2'' ''abc-def-ghi'' bob_info) = ''u2''"
  by (simp add: new_participant_def bob_info_def js_or_string_def)

lemma socketId_new_participant: "socketId (new_participant s k info) = s"
  by (simp add: new_participant_def)

text \<open>
  Claim C5 at a concrete input, in the second version of the component. \<open>s2\<close>
  joins the room \<open>s1\<close> is in. The relay sends \<^verbatim>\<open>room-users\<close> to \<open>s2\<close> and
  \<^verbatim>\<open>user-joined\<close> to \<open>s1\<close>. The client on \<open>s1\<close> answers the join event with
  an offer to \<open>s2\<close>, and the client on \<open>s2\<close> answers the snapshot with an offer
  to \<open>s1\<close>: both sides of the pair initiate.
\<close>

theorem both_sides_initiate_v2:
  "snd (join_room (connection relay_one ''s2'') ''s2'' ''abc-def-ghi'' bob_info) =
     [(''s2'', RoomUsers [new_participant ''s1'' ''abc-def-ghi'' alice_info,
                          new_participant ''s2'' ''abc-def-ghi'' bob_info]),
      (''s1'', UserJoined (new_participant ''s2'' ''abc-def-ghi'' bob_info))]
   \<and> snd (on_user_joined_v2 (client0 ''u1'') (new_participant ''s2'' ''abc-def-ghi'' bob_info))
       = [SendOffer ''abc-def-ghi'' SdpOffer ''s2'']
   \<and> snd (on_room_users_v2 (client0 ''u2'')
            [new_participant ''s1'' ''abc-def-ghi'' alice_info,
             new_participant ''s2'' ''abc-def-ghi'' bob_info])
       = [SendOffer ''abc-def-ghi'' SdpOffer ''s1'']"
  by (simp add: join_two_deliveries on_user_joined_v2_def on_room_users_v2_def is_other_def
      userId_alice userId_bob socketId_new_participant client0_def createPeerConnection_v2_def
      create_and_store_def Let_def emit_def the_key_def)





lemma responder_sends_no_offer_v1: "snd (createPeerConnection_v1 c s False) = []"
  by (simp add: createPeerConnection_v1_def create_and_store_def Let_def split: option.split)

subsection \<open>One connection per remote id\<close>

text \<open>
  In the first version \<^verbatim>\<open>createPeerConnection\<close> is idempotent in the remote socket
  id: a second call changes nothing and sends nothing.
\<close>

lemma createPeerConnection_v1_existing:
  "map_get (peerConnections c) s = Some pc \<Longrightarrow> createPeerConnection_v1 c s b = (c, [])"
  by (simp add: createPeerConnection_v1_def)

lemma createPeerConnection_v1_stores:
  "map_get (peerConnections (fst (createPeerConnection_v1 c s b))) s \<noteq> None"
  by (auto simp: createPeerConnection_v1_def create_and_store_def Let_def map_get_map_set
      split: option.split)

lemma createPeerConnection_v1_idempotent:
  "createPeerConnection_v1 (fst (createPeerConnection_v1 c s b)) s b'
     = (fst (createPeerConnection_v1 c s b), [])"
  using createPeerConnection_v1_stores [of c s b]
  by (auto simp: createPeerConnection_v1_existing)

text \<open>
  Claim C7 at a concrete input, in the second version of the component. A connection
  to \<open>s2\<close> is created as initiator (object 0, the offer committed) and the answer
  of \<open>s2\<close> is committed. A second \<^verbatim>\<open>createPeerConnection\<close> for \<open>s2\<close>, as a
  repeated \<^verbatim>\<open>user-joined\<close> for \<open>s2\<close> makes, stores a new object (object 1, no
  remote description) over the negotiated one and sends a second offer.
\<close>

theorem createPeerConnection_v2_replaces:
  "map (\<lambda>e. (fst e, pc_serial (snd e), remoteDescription (snd e)))
     (peerConnections
        (fst (handleAnswer (fst (createPeerConnection_v2 (client0 ''u1'') ''s2'' True))
               SdpAnswer ''s2'')))
     = [(''s2'', 0, Some SdpAnswer)]
   \<and> map (\<lambda>e. (fst e, pc_serial (snd e), remoteDescription (snd e)))
       (peerConnections (fst (createPeerConnection_v2
          (fst (handleAnswer (fst (createPeerConnection_v2 (client0 ''u1'') ''s2'' True))
                 SdpAnswer ''s2''))
          ''s2'' True)))
       = [(''s2'', 1, None)]
   \<and> snd (createPeerConnection_v2
          (fst (handleAnswer (fst (createPeerConnection_v2 (client0 ''u1'') ''s2'' True))
                 SdpAnswer ''s2''))
          ''s2'' True)
       = [SendOffer ''abc-def-ghi'' SdpOffer ''s2'']"
  by (simp add: createPeerConnection_v2_def create_and_store_def Let_def client0_def
      new_peer_conn_def emit_def the_key_def handleAnswer_def map_get_def)

subsection \<open>ICE candidates\<close>



lemma list_all_map_get: "list_all P m \<Longrightarrow> map_get m k = Some v \<Longrightarrow> P (k, v)"
  by (auto simp: map_get_def list_all_iff dest: map_of_SomeD)

















subsection \<open>Screen sharing\<close>

lemma replace_video_length: "length (replace_video vt ss) = length ss"
  by (induction ss) simp_all


lemma replace_video_none: "\<not> list_ex carries_video ss \<Longrightarrow> replace_video vt ss = ss"
  by (induction ss) simp_all





subsection \<open>Leaving\<close>
















end
